theory Spec2Isabelle
  imports Complex_Main
begin

section \<open>Python values and errors\<close>

text \<open>
  The exceptions the modelled code can raise. A function that can raise returns
  \<open>error + 'a\<close>, with \<open>Inl\<close> for the exception.
\<close>

datatype error = AttributeError | TypeError | ValueError | KeyError

text \<open>
  A pseudo-observation series is a one-dimensional numpy array of finite float64 values,
  each given by the real number it stands for. NaN is outside the model, and the two
  zeros are one.
\<close>

type_synonym series = "real list"

section \<open>Float64 arithmetic\<close>

text \<open>
  Rounding a real number to the nearest float64, ties to the even significand: the
  spacing of the floats around \<open>x\<close> is \<open>2\<close> to the power \<open>ulp_exp x\<close>, 52 binary places
  below the leading bit of \<open>x\<close> and never below \<open>2\<close> to the \<open>-1074\<close>, the spacing of the
  subnormal floats. \<open>fl64\<close> rounds as if the exponent had no upper limit;
  \<open>f64_of_real\<close> gives the float an operation returns, an infinity when the rounded value
  is beyond the largest float (\<open>Infinite True\<close> is the negative one).
\<close>

definition round_half_even :: "real \<Rightarrow> int" where
  "round_half_even q =
     (let f = \<lfloor>q\<rfloor> in
      if q - of_int f < 1/2 then f
      else if 1/2 < q - of_int f then f + 1
      else if even f then f else f + 1)"

definition ulp_exp :: "real \<Rightarrow> int" where
  "ulp_exp x = max (\<lfloor>log 2 \<bar>x\<bar>\<rfloor> - 52) (- 1074)"

definition fl64 :: "real \<Rightarrow> real" where
  "fl64 x =
     (if x = 0 then 0
      else of_int (round_half_even (x / 2 powr of_int (ulp_exp x))) * 2 powr of_int (ulp_exp x))"

definition is_f64 :: "real \<Rightarrow> bool" where
  "is_f64 x = (fl64 x = x \<and> \<bar>x\<bar> < 2 ^ 1024)"

datatype f64 = Finite real | Infinite bool

definition f64_of_real :: "real \<Rightarrow> f64" where
  "f64_of_real x = (if \<bar>fl64 x\<bar> < 2 ^ 1024 then Finite (fl64 x) else Infinite (x < 0))"

text \<open>
  Adding a finite float to an accumulated float (\<^verbatim>\<open>s += t\<close>), the absolute value and the
  comparison of floats.
\<close>

fun f64_add :: "f64 \<Rightarrow> real \<Rightarrow> f64" where
  "f64_add (Finite s) t = f64_of_real (s + t)"
| "f64_add (Infinite neg) t = Infinite neg"

fun f64_abs :: "f64 \<Rightarrow> f64" where
  "f64_abs (Finite x) = Finite \<bar>x\<bar>"
| "f64_abs (Infinite neg) = Infinite False"

fun f64_less :: "f64 \<Rightarrow> f64 \<Rightarrow> bool" where
  "f64_less (Finite x) (Finite y) = (x < y)"
| "f64_less (Finite x) (Infinite neg) = (\<not> neg)"
| "f64_less (Infinite neg) (Finite y) = neg"
| "f64_less (Infinite a) (Infinite b) = (a \<and> \<not> b)"

text \<open>
  \<^verbatim>\<open>u * v\<close> on two one-dimensional numpy arrays: elementwise when the lengths agree,
  broadcast when one of them has length one, \<^verbatim>\<open>ValueError\<close> otherwise. Each product is
  the float64 product, the exact product rounded.
\<close>

definition f64_mul :: "real \<Rightarrow> real \<Rightarrow> f64" where
  "f64_mul x y = f64_of_real (x * y)"

definition np_mul :: "series \<Rightarrow> series \<Rightarrow> error + f64 list" where
  "np_mul u v =
     (if length u = length v then Inr (map2 f64_mul u v)
      else if length u = 1 then Inr (map (\<lambda>y. f64_mul (hd u) y) v)
      else if length v = 1 then Inr (map (\<lambda>x. f64_mul x (hd v)) u)
      else Inl ValueError)"

section \<open>The independence copula (indep\_copula.py)\<close>

text \<open>
  The attributes \<^verbatim>\<open>IndepCopula.__init__\<close> sets. An infinite bound is \<open>None\<close>.
\<close>

record IndepCopula =
  rotation :: int
  name :: string
  theta0 :: "real list"
  fittedParams :: "real list"
  thetaBounds :: "(real option \<times> real option) list"

definition IndepCopula_init :: "int \<Rightarrow> IndepCopula" where
  "IndepCopula_init rot =
     \<lparr>rotation = rot, name = ''indep'', theta0 = [1], fittedParams = [1],
      thetaBounds = [(None, None)]\<rparr>"

text \<open>
  The four transforms. Each takes \<^verbatim>\<open>(u, v, rotation, *args)\<close>; none of them reads the
  rotation or the parameters. \<^verbatim>\<open>_h\<close> and \<^verbatim>\<open>_hinv\<close> return their second argument as it
  is, whatever it is, so they are polymorphic in it.
\<close>

definition IndepCopula_pdf :: "series \<Rightarrow> 'b \<Rightarrow> int \<Rightarrow> real list \<Rightarrow> series" where
  "IndepCopula_pdf u v rot args = replicate (length u) 1"

definition IndepCopula_cdf :: "series \<Rightarrow> series \<Rightarrow> int \<Rightarrow> real list \<Rightarrow> error + f64 list" where
  "IndepCopula_cdf u v rot args = np_mul u v"

definition IndepCopula_h :: "'a \<Rightarrow> 'b \<Rightarrow> int \<Rightarrow> real list \<Rightarrow> 'b" where
  "IndepCopula_h u v rot args = v"

definition IndepCopula_hinv :: "'a \<Rightarrow> 'b \<Rightarrow> int \<Rightarrow> real list \<Rightarrow> 'b" where
  "IndepCopula_hinv u v rot args = v"

text \<open>
  Modelled from the spec: the log-likelihood of data under a family, which
  \<^verbatim>\<open>copula_base.py\<close> (not among the sources) computes. Section 4.3 of the specification
  gives it as the sum over the observations of the logarithm of the density.
\<close>

definition logLikelihood :: "series \<Rightarrow> real" where
  "logLikelihood dens = sum_list (map ln dens)"

section \<open>What the code reads of the pair-copula module (pc\_base)\<close>

text \<open>
  \<^verbatim>\<open>starvine.bvcopula.pc_base\<close> is not among the sources. \<^verbatim>\<open>C_vine.py\<close> reads the
  attribute \<^verbatim>\<open>empKTau\<close> of a \<^verbatim>\<open>PairCopula\<close> in two ways: \<^verbatim>\<open>_setTreeStructure\<close> calls it
  (\<^verbatim>\<open>trialPair.empKTau()[0]\<close>), \<^verbatim>\<open>_selectSpanningTree\<close> unpacks it without calling it
  (\<^verbatim>\<open>trialKtau, trialP = trialPair.empKTau\<close>). So the attribute is modelled with both
  possibilities: a bound method that returns the pair when called, or a property that is
  the pair. Calling a tuple and unpacking a bound method both raise \<^verbatim>\<open>TypeError\<close>.
\<close>

datatype 'a attr = Method 'a | Property 'a

definition call_attr :: "'a attr \<Rightarrow> error + 'a" where
  "call_attr a = (case a of Method r \<Rightarrow> Inr r | Property r \<Rightarrow> Inl TypeError)"

definition unpack_attr :: "'a attr \<Rightarrow> error + 'a" where
  "unpack_attr a = (case a of Property r \<Rightarrow> Inr r | Method r \<Rightarrow> Inl TypeError)"

text \<open>
  What is handed to a copula's conditional transform: a series, or the attribute
  dictionary of a graph node (\<^verbatim>\<open>{"data": series}\<close>).
\<close>

type_synonym node_attrs = "(string \<times> series) list"

datatype pyarg = Series series | Dict node_attrs

text \<open>
  A fitted copula object, as far as \<^verbatim>\<open>evalH\<close> uses it: the rotation it was built with and
  its public method \<^verbatim>\<open>h(u, v, rotation, theta)\<close>.
\<close>

record CopulaModel =
  model_rotation :: int
  h :: "pyarg \<Rightarrow> pyarg \<Rightarrow> int \<Rightarrow> real list \<Rightarrow> error + pyarg"

text \<open>
  A \<^verbatim>\<open>PairCopula\<close> object, as far as the tree uses it: the attribute \<^verbatim>\<open>empKTau\<close>, a pair
  of Kendall's tau and its significance (of a type \<open>'p\<close> the code never looks into), and
  the result of \<^verbatim>\<open>copulaTournament()\<close>, the winning model and its parameters.
\<close>

record 'p PairCopula =
  empKTau :: "(real \<times> 'p) attr"
  copulaTournament :: "error + (CopulaModel \<times> real list)"

section \<open>The graph of a tree (networkx 1.x Graph)\<close>

datatype label = LInt int | LStr string

text \<open>
  Object identity of two labels that two iterations over a column index yield
  (\<^verbatim>\<open>a is b\<close>). An index that has a string label holds the label objects themselves, and
  every iteration yields them. An index of integers only holds numbers, and every
  iteration makes a new \<^verbatim>\<open>int\<close> object for each; the interpreter keeps one object for
  each integer from -5 to 256 and makes a new one for any other. Labels are taken to be
  distinct, so that equal labels come from the same column.
\<close>

fun is_str :: "label \<Rightarrow> bool" where
  "is_str (LStr s) = True"
| "is_str (LInt i) = False"

definition is_object :: "label list \<Rightarrow> label \<Rightarrow> label \<Rightarrow> bool" where
  "is_object index a b =
     (a = b \<and> (case a of
                  LStr s \<Rightarrow> True
                | LInt i \<Rightarrow> list_ex is_str index \<or> (- 5 \<le> i \<and> i \<le> 256)))"

definition is_not :: "label list \<Rightarrow> label \<Rightarrow> label \<Rightarrow> bool" where
  "is_not index a b = (\<not> is_object index a b)"

text \<open>An index all of whose labels are yielded as the same object every time.\<close>

definition identity_comparable :: "label list \<Rightarrow> bool" where
  "identity_comparable index = list_all (\<lambda>c. is_object index c c) index"

text \<open>
  The attribute dictionary of an edge: \<^verbatim>\<open>weight\<close> and \<^verbatim>\<open>pc\<close> are set by \<^verbatim>\<open>add_edge\<close>,
  \<^verbatim>\<open>pc-model\<close> by \<^verbatim>\<open>fitCopula\<close> and \<^verbatim>\<open>h-dist\<close> by \<^verbatim>\<open>evalH\<close>; a key not yet set is
  \<open>None\<close>.
\<close>

record 'p edge_attrs =
  weight :: real
  pc :: "'p PairCopula"
  pc_model :: "(CopulaModel \<times> real list) option"
  h_dist :: "pyarg option"

text \<open>
  An undirected graph: the node dictionary, and one entry for each edge with the
  attribute dictionary the two directions share. Dictionaries are kept in insertion
  order.
\<close>

record 'p Graph =
  node :: "(label \<times> node_attrs) list"
  edge :: "((label \<times> label) \<times> 'p edge_attrs) list"

definition nx_Graph :: "'p Graph" where
  "nx_Graph = \<lparr>node = [], edge = []\<rparr>"

fun same_edge :: "label \<times> label \<Rightarrow> label \<times> label \<Rightarrow> bool" where
  "same_edge (a, b) (u, v) = ((a = u \<and> b = v) \<or> (a = v \<and> b = u))"

text \<open>\<^verbatim>\<open>dict.update\<close> on an insertion-ordered dictionary.\<close>

fun dict_update :: "('k \<times> 'v) list \<Rightarrow> ('k \<times> 'v) list \<Rightarrow> ('k \<times> 'v) list" where
  "dict_update d [] = d"
| "dict_update d ((k, x) # kvs) =
     dict_update (if k \<in> fst ` set d then map (\<lambda>(k', y). if k' = k then (k', x) else (k', y)) d
                  else d @ [(k, x)]) kvs"

definition add_node :: "'p Graph \<Rightarrow> label \<Rightarrow> node_attrs \<Rightarrow> 'p Graph" where
  "add_node g n attr_dict =
     (if n \<in> fst ` set (node g)
      then g\<lparr>node := map (\<lambda>(m, d). if m = n then (m, dict_update d attr_dict) else (m, d)) (node g)\<rparr>
      else g\<lparr>node := node g @ [(n, attr_dict)]\<rparr>)"

text \<open>
  \<^verbatim>\<open>add_edge(u, v, weight=w, attr_dict={"pc": p})\<close>: both endpoints become nodes if they
  are not; an edge between them in either direction keeps its dictionary, with
  \<^verbatim>\<open>weight\<close> and \<^verbatim>\<open>pc\<close> overwritten.
\<close>

definition add_edge :: "'p Graph \<Rightarrow> label \<Rightarrow> label \<Rightarrow> real \<Rightarrow> 'p PairCopula \<Rightarrow> 'p Graph" where
  "add_edge g u v w p =
     (let g1 = (if u \<in> fst ` set (node g) then g else g\<lparr>node := node g @ [(u, [])]\<rparr>);
          g2 = (if v \<in> fst ` set (node g1) then g1 else g1\<lparr>node := node g1 @ [(v, [])]\<rparr>)
      in if \<exists>e \<in> set (edge g2). same_edge (fst e) (u, v)
         then g2\<lparr>edge := map (\<lambda>(k, d). if same_edge k (u, v) then (k, d\<lparr>weight := w, pc := p\<rparr>)
                                         else (k, d)) (edge g2)\<rparr>
         else g2\<lparr>edge := edge g2 @
                  [((u, v), \<lparr>weight = w, pc = p, pc_model = None, h_dist = None\<rparr>)]\<rparr>)"

text \<open>
  \<^verbatim>\<open>edges(data=True)\<close>: the nodes in order, for each its neighbours in order, an edge
  reported from the endpoint that comes first among the nodes (once for a self-loop).
\<close>

definition nbrs :: "'p Graph \<Rightarrow> label \<Rightarrow> (label \<times> 'p edge_attrs) list" where
  "nbrs g n = concat (map (\<lambda>((a, b), d).
       if a = n then [(b, d)] else if b = n then [(a, d)] else []) (edge g))"

fun edges_from :: "'p Graph \<Rightarrow> label list \<Rightarrow> label list
    \<Rightarrow> (label \<times> label \<times> 'p edge_attrs) list" where
  "edges_from g [] seen = []"
| "edges_from g (n # ns) seen =
     map (\<lambda>(nbr, d). (n, nbr, d)) (filter (\<lambda>(nbr, d). nbr \<notin> set seen) (nbrs g n))
     @ edges_from g ns (n # seen)"

definition edges :: "'p Graph \<Rightarrow> (label \<times> label \<times> 'p edge_attrs) list" where
  "edges g = edges_from g (map fst (node g)) []"

text \<open>The number of edge ends at a node (a self-loop counts twice).\<close>

definition degree :: "'p Graph \<Rightarrow> label \<Rightarrow> nat" where
  "degree g n = length (filter (\<lambda>((a, b), d). a = n) (edge g))
              + length (filter (\<lambda>((a, b), d). b = n) (edge g))"

text \<open>\<^verbatim>\<open>self.tree.node[n]["data"].values\<close>: both subscripts raise \<^verbatim>\<open>KeyError\<close>.\<close>

definition node_data :: "'p Graph \<Rightarrow> label \<Rightarrow> error + series" where
  "node_data g n =
     (case map_of (node g) n of
        None \<Rightarrow> Inl KeyError
      | Some attrs \<Rightarrow> (case map_of attrs ''data'' of None \<Rightarrow> Inl KeyError | Some s \<Rightarrow> Inr s))"

section \<open>A tree level (class Ctree)\<close>

text \<open>
  A data frame is its columns in order, each a label and a series. Looking a column up
  by its label gives that series when the labels are distinct.
\<close>

type_synonym DataFrame = "(label \<times> series) list"

definition columns :: "DataFrame \<Rightarrow> label list" where
  "columns df = map fst df"

definition getitem :: "DataFrame \<Rightarrow> label \<Rightarrow> error + series" where
  "getitem df c = (case map_of df c of None \<Rightarrow> Inl KeyError | Some s \<Rightarrow> Inr s)"

text \<open>
  The argument \<^verbatim>\<open>data\<close> of the constructor: a data frame, or a two-dimensional array
  given by its columns.
\<close>

datatype pydata = PyDataFrame DataFrame | PyNdarray "series list"

text \<open>
  An instance and its attributes. An attribute that has not been assigned is \<open>None\<close>;
  reading it raises \<^verbatim>\<open>AttributeError\<close>. The class itself defines no attribute but its
  methods, so a new instance has none.
\<close>

record 'p Ctree =
  data :: "DataFrame option"
  nT :: "nat option"
  level :: "int option option"
  tree :: "'p Graph option"

definition Ctree_new :: "'p Ctree" where
  "Ctree_new = \<lparr>data = None, nT = None, level = None, tree = None\<rparr>"

definition getattr :: "'a option \<Rightarrow> error + 'a" where
  "getattr a = (case a of None \<Rightarrow> Inl AttributeError | Some x \<Rightarrow> Inr x)"

text \<open>\<^verbatim>\<open>_buildNodes\<close>: one node for each column, holding the column.\<close>

fun buildNodes_loop :: "DataFrame \<Rightarrow> label list \<Rightarrow> 'p Graph \<Rightarrow> error + 'p Graph" where
  "buildNodes_loop df [] g = Inr g"
| "buildNodes_loop df (colName # rest) g =
     (case getitem df colName of
        Inl e \<Rightarrow> Inl e
      | Inr col \<Rightarrow> buildNodes_loop df rest (add_node g colName [(''data'', col)]))"

definition buildNodes :: "'p Ctree \<Rightarrow> error + 'p Ctree" where
  "buildNodes self =
     (case getattr (data self) of
        Inl e \<Rightarrow> Inl e
      | Inr df \<Rightarrow>
          (case getattr (tree self) of
             Inl e \<Rightarrow> Inl e
           | Inr g \<Rightarrow>
               (case buildNodes_loop df (columns df) g of
                  Inl e \<Rightarrow> Inl e
                | Inr g' \<Rightarrow> Inr (self\<lparr>tree := Some g'\<rparr>))))"

text \<open>
  Lines 112 to 123 of \<^verbatim>\<open>Ctree.__init__\<close>, everything after the assertion. The keyword
  argument \<^verbatim>\<open>labels\<close> is \<open>None\<close> when it is not given; the default labels of an array are
  \<^verbatim>\<open>range(data.shape[1])\<close>, and assigning a label list of another length to the columns
  raises \<^verbatim>\<open>ValueError\<close>.
\<close>

definition Ctree_init_body :: "'p Ctree \<Rightarrow> pydata \<Rightarrow> int option \<Rightarrow> label list option
    \<Rightarrow> error + 'p Ctree" where
  "Ctree_init_body self dat lvl labels =
     (case (case dat of
              PyDataFrame df \<Rightarrow> Inr (df, length df)
            | PyNdarray cols \<Rightarrow>
                (let dataLabels = (case labels of
                                     None \<Rightarrow> map (\<lambda>i. LInt (int i)) [0 ..< length cols]
                                   | Some ls \<Rightarrow> ls)
                 in if length dataLabels = length cols
                    then Inr (zip dataLabels cols, length cols)
                    else Inl ValueError)) of
        Inl e \<Rightarrow> Inl e
      | Inr (df, n) \<Rightarrow>
          buildNodes (self\<lparr>data := Some df, nT := Some n, level := Some lvl,
                          tree := Some nx_Graph\<rparr>))"

text \<open>
  \<^verbatim>\<open>Ctree.__init__\<close>. Line 111 reads \<^verbatim>\<open>self.data\<close> inside the assertion, before any
  assignment. A data frame has a two-dimensional shape, so the assertion itself holds
  whenever the attribute can be read. (The assertion is executed, as it is unless the
  interpreter runs with assertions switched off.)
\<close>

definition Ctree_init :: "'p Ctree \<Rightarrow> pydata \<Rightarrow> int option \<Rightarrow> label list option
    \<Rightarrow> error + 'p Ctree" where
  "Ctree_init self dat lvl labels =
     (case getattr (data self) of
        Inl e \<Rightarrow> Inl e
      | Inr df \<Rightarrow> Ctree_init_body self dat lvl labels)"

text \<open>The call \<^verbatim>\<open>Ctree(data, lvl, labels=...)\<close>: a new instance, then \<^verbatim>\<open>__init__\<close>.\<close>

definition Ctree_call :: "pydata \<Rightarrow> int option \<Rightarrow> label list option \<Rightarrow> error + 'p Ctree" where
  "Ctree_call dat lvl labels = Ctree_init Ctree_new dat lvl labels"

text \<open>
  The methods below take the constructor of the missing module as their first argument
  \<open>mkpc\<close>: \<open>mkpc x y\<close> is the object \<^verbatim>\<open>pc.PairCopula(x, y)\<close>.

  \<^verbatim>\<open>_setTreeStructure\<close>: for each pair the user gives, the two nodes' series, a pair
  copula of them, and the triple of the two labels and \<^verbatim>\<open>empKTau()[0]\<close>. Nothing else is
  looked at.
\<close>

fun setTreeStructure_loop :: "(series \<Rightarrow> series \<Rightarrow> 'p PairCopula) \<Rightarrow> 'p Graph
    \<Rightarrow> (label \<times> label) list \<Rightarrow> (label \<times> label \<times> real) list
    \<Rightarrow> error + (label \<times> label \<times> real) list" where
  "setTreeStructure_loop mkpc g [] treeStructure = Inr treeStructure"
| "setTreeStructure_loop mkpc g (pair # rest) treeStructure =
     (case node_data g (fst pair) of
        Inl e \<Rightarrow> Inl e
      | Inr x \<Rightarrow>
          (case node_data g (snd pair) of
             Inl e \<Rightarrow> Inl e
           | Inr y \<Rightarrow>
               (case call_attr (empKTau (mkpc x y)) of
                  Inl e \<Rightarrow> Inl e
                | Inr r \<Rightarrow>
                    setTreeStructure_loop mkpc g rest
                      (treeStructure @ [(fst pair, snd pair, fst r)]))))"

definition setTreeStructure :: "(series \<Rightarrow> series \<Rightarrow> 'p PairCopula) \<Rightarrow> 'p Ctree
    \<Rightarrow> (label \<times> label) list \<Rightarrow> error + (label \<times> label \<times> real) list" where
  "setTreeStructure mkpc self nodePairs =
     (case getattr (tree self) of
        Inl e \<Rightarrow> Inl e
      | Inr g \<Rightarrow> setTreeStructure_loop mkpc g nodePairs [])"

text \<open>
  \<^verbatim>\<open>_selectSpanningTree\<close>. The inner loop runs over all node labels for one candidate
  root and carries \<^verbatim>\<open>trialKtauSum[i]\<close>, a float64 that starts at zero, and
  \<^verbatim>\<open>trialPairings[i]\<close>; the outer loop runs over the candidate roots and carries the two
  arrays. The test \<^verbatim>\<open>nodeID is not rootNodeID\<close> is the identity of the two label objects,
  each yielded by its own iteration over \<^verbatim>\<open>nodeIDs\<close>.
\<close>

fun selectSpanningTree_inner :: "(series \<Rightarrow> series \<Rightarrow> 'p PairCopula) \<Rightarrow> 'p Graph \<Rightarrow> label list
    \<Rightarrow> label \<Rightarrow> label list \<Rightarrow> f64 \<times> (label \<times> label \<times> real) list
    \<Rightarrow> error + (f64 \<times> (label \<times> label \<times> real) list)" where
  "selectSpanningTree_inner mkpc g nodeIDs rootNodeID [] acc = Inr acc"
| "selectSpanningTree_inner mkpc g nodeIDs rootNodeID (nodeID # rest) acc =
     (if is_not nodeIDs nodeID rootNodeID then
        (case node_data g rootNodeID of
           Inl e \<Rightarrow> Inl e
         | Inr x \<Rightarrow>
             (case node_data g nodeID of
                Inl e \<Rightarrow> Inl e
              | Inr y \<Rightarrow>
                  (case unpack_attr (empKTau (mkpc x y)) of
                     Inl e \<Rightarrow> Inl e
                   | Inr (trialKtau, trialP) \<Rightarrow>
                       selectSpanningTree_inner mkpc g nodeIDs rootNodeID rest
                         (f64_add (fst acc) trialKtau,
                          snd acc @ [(rootNodeID, nodeID, trialKtau)]))))
      else selectSpanningTree_inner mkpc g nodeIDs rootNodeID rest acc)"

fun selectSpanningTree_outer :: "(series \<Rightarrow> series \<Rightarrow> 'p PairCopula) \<Rightarrow> 'p Graph
    \<Rightarrow> label list \<Rightarrow> label list \<Rightarrow> f64 list \<times> (label \<times> label \<times> real) list list
    \<Rightarrow> error + (f64 list \<times> (label \<times> label \<times> real) list list)" where
  "selectSpanningTree_outer mkpc g nodeIDs [] acc = Inr acc"
| "selectSpanningTree_outer mkpc g nodeIDs (rootNodeID # rest) acc =
     (case selectSpanningTree_inner mkpc g nodeIDs rootNodeID nodeIDs (Finite 0, []) of
        Inl e \<Rightarrow> Inl e
      | Inr (s, pairings) \<Rightarrow>
          selectSpanningTree_outer mkpc g nodeIDs rest (fst acc @ [s], snd acc @ [pairings]))"

text \<open>
  \<^verbatim>\<open>np.argmax\<close>: the index of the first occurrence of the largest value; \<^verbatim>\<open>ValueError\<close> on
  an empty array.
\<close>

fun argmax_scan :: "f64 list \<Rightarrow> nat \<Rightarrow> nat \<Rightarrow> f64 \<Rightarrow> nat" where
  "argmax_scan [] i best m = best"
| "argmax_scan (x # xs) i best m =
     (if f64_less m x then argmax_scan xs (Suc i) i x else argmax_scan xs (Suc i) best m)"

definition np_argmax :: "f64 list \<Rightarrow> error + nat" where
  "np_argmax xs = (case xs of [] \<Rightarrow> Inl ValueError | x # rest \<Rightarrow> Inr (argmax_scan rest 1 0 x))"

definition selectSpanningTree :: "(series \<Rightarrow> series \<Rightarrow> 'p PairCopula) \<Rightarrow> 'p Ctree
    \<Rightarrow> error + (label \<times> label \<times> real) list" where
  "selectSpanningTree mkpc self =
     (case getattr (data self) of
        Inl e \<Rightarrow> Inl e
      | Inr df \<Rightarrow>
          (case getattr (tree self) of
             Inl e \<Rightarrow> Inl e
           | Inr g \<Rightarrow>
               (case selectSpanningTree_outer mkpc g (columns df) (columns df) ([], []) of
                  Inl e \<Rightarrow> Inl e
                | Inr (trialKtauSum, trialPairings) \<Rightarrow>
                    (case np_argmax (map f64_abs trialKtauSum) of
                       Inl e \<Rightarrow> Inl e
                     | Inr bestPairingIndex \<Rightarrow> Inr (trialPairings ! bestPairingIndex)))))"

text \<open>
  \<^verbatim>\<open>setEdges\<close>. The argument is \<open>None\<close> when no structure is given; \<open>None\<close> and the empty
  list are both false in \<^verbatim>\<open>if treeStructure:\<close>. Each triple becomes an edge whose weight
  is the triple's third component and whose pair copula is built from the two columns of
  \<^verbatim>\<open>self.data\<close>.
\<close>

fun setEdges_loop :: "(series \<Rightarrow> series \<Rightarrow> 'p PairCopula) \<Rightarrow> DataFrame
    \<Rightarrow> (label \<times> label \<times> real) list \<Rightarrow> 'p Graph \<Rightarrow> error + 'p Graph" where
  "setEdges_loop mkpc df [] g = Inr g"
| "setEdges_loop mkpc df (pair # rest) g =
     (case getitem df (fst pair) of
        Inl e \<Rightarrow> Inl e
      | Inr x \<Rightarrow>
          (case getitem df (fst (snd pair)) of
             Inl e \<Rightarrow> Inl e
           | Inr y \<Rightarrow>
               setEdges_loop mkpc df rest
                 (add_edge g (fst pair) (fst (snd pair)) (snd (snd pair)) (mkpc x y))))"

definition setEdges :: "(series \<Rightarrow> series \<Rightarrow> 'p PairCopula) \<Rightarrow> 'p Ctree
    \<Rightarrow> (label \<times> label) list option \<Rightarrow> error + 'p Ctree" where
  "setEdges mkpc self treeStructure =
     (case (if treeStructure \<noteq> None \<and> treeStructure \<noteq> Some []
            then setTreeStructure mkpc self (the treeStructure)
            else selectSpanningTree mkpc self) of
        Inl e \<Rightarrow> Inl e
      | Inr nodePairs \<Rightarrow>
          (case getattr (data self) of
             Inl e \<Rightarrow> Inl e
           | Inr df \<Rightarrow>
               (case getattr (tree self) of
                  Inl e \<Rightarrow> Inl e
                | Inr g \<Rightarrow>
                    (case setEdges_loop mkpc df nodePairs g of
                       Inl e \<Rightarrow> Inl e
                     | Inr g' \<Rightarrow> Inr (self\<lparr>tree := Some g'\<rparr>)))))"

text \<open>
  Storing under a key of the edge dictionary \<^verbatim>\<open>self.tree.edge[u][v]\<close>, which both
  directions share.
\<close>

definition set_pc_model :: "'p Graph \<Rightarrow> label \<Rightarrow> label \<Rightarrow> CopulaModel \<times> real list \<Rightarrow> 'p Graph" where
  "set_pc_model g u v m =
     g\<lparr>edge := map (\<lambda>(k, d). if same_edge k (u, v) then (k, d\<lparr>pc_model := Some m\<rparr>) else (k, d))
                  (edge g)\<rparr>"

definition set_h_dist :: "'p Graph \<Rightarrow> label \<Rightarrow> label \<Rightarrow> pyarg \<Rightarrow> 'p Graph" where
  "set_h_dist g u v r =
     g\<lparr>edge := map (\<lambda>(k, d). if same_edge k (u, v) then (k, d\<lparr>h_dist := Some r\<rparr>) else (k, d))
                  (edge g)\<rparr>"

text \<open>\<^verbatim>\<open>fitCopula\<close>: the tournament of each edge's pair copula, stored as \<^verbatim>\<open>pc-model\<close>.\<close>

fun fitCopula_loop :: "(label \<times> label \<times> 'p edge_attrs) list \<Rightarrow> 'p Graph \<Rightarrow> error + 'p Graph" where
  "fitCopula_loop [] g = Inr g"
| "fitCopula_loop ((u, v, d) # rest) g =
     (case copulaTournament (pc d) of
        Inl e \<Rightarrow> Inl e
      | Inr m \<Rightarrow> fitCopula_loop rest (set_pc_model g u v m))"

definition fitCopula :: "'p Ctree \<Rightarrow> error + 'p Ctree" where
  "fitCopula self =
     (case getattr (tree self) of
        Inl e \<Rightarrow> Inl e
      | Inr g \<Rightarrow>
          (case fitCopula_loop (edges g) g of
             Inl e \<Rightarrow> Inl e
           | Inr g' \<Rightarrow> Inr (self\<lparr>tree := Some g'\<rparr>)))"

text \<open>\<^verbatim>\<open>treeLLH\<close>: the body is \<^verbatim>\<open>pass\<close>; the method returns \<^verbatim>\<open>None\<close>.\<close>

definition treeLLH :: "'p Ctree \<Rightarrow> real option" where
  "treeLLH self = None"

text \<open>
  \<^verbatim>\<open>evalH\<close>. For each edge \<open>(u, v)\<close> as the graph reports it, the model's \<^verbatim>\<open>h\<close> is called
  with \<^verbatim>\<open>self.tree.node[u]\<close> and \<^verbatim>\<open>self.tree.node[v]\<close>, the two nodes' attribute
  dictionaries, with the literal rotation 0 and with the fitted parameter list as one
  argument; the result is stored on the edge as \<^verbatim>\<open>h-dist\<close>. An edge without
  \<^verbatim>\<open>pc-model\<close> raises \<^verbatim>\<open>KeyError\<close>.
\<close>

definition node_dict :: "'p Graph \<Rightarrow> label \<Rightarrow> error + node_attrs" where
  "node_dict g n = (case map_of (node g) n of None \<Rightarrow> Inl KeyError | Some attrs \<Rightarrow> Inr attrs)"

fun evalH_loop :: "(label \<times> label \<times> 'p edge_attrs) list \<Rightarrow> 'p Graph \<Rightarrow> error + 'p Graph" where
  "evalH_loop [] g = Inr g"
| "evalH_loop ((u, v, d) # rest) g =
     (case pc_model d of
        None \<Rightarrow> Inl KeyError
      | Some m \<Rightarrow>
          (case node_dict g u of
             Inl e \<Rightarrow> Inl e
           | Inr nu \<Rightarrow>
               (case node_dict g v of
                  Inl e \<Rightarrow> Inl e
                | Inr nv \<Rightarrow>
                    (case h (fst m) (Dict nu) (Dict nv) 0 (snd m) of
                       Inl e \<Rightarrow> Inl e
                     | Inr r \<Rightarrow> evalH_loop rest (set_h_dist g u v r)))))"

definition evalH :: "'p Ctree \<Rightarrow> error + 'p Ctree" where
  "evalH self =
     (case getattr (tree self) of
        Inl e \<Rightarrow> Inl e
      | Inr g \<Rightarrow>
          (case evalH_loop (edges g) g of
             Inl e \<Rightarrow> Inl e
           | Inr g' \<Rightarrow> Inr (self\<lparr>tree := Some g'\<rparr>)))"

section \<open>The vine (class Cvine)\<close>

record 'p Cvine =
  Cvine_data :: DataFrame
  nLevels :: int
  vine :: "'p Graph"

definition Cvine_init :: "DataFrame \<Rightarrow> 'p Cvine" where
  "Cvine_init df = \<lparr>Cvine_data = df, nLevels = int (length df) - 1, vine = nx_Graph\<rparr>"

text \<open>
  \<^verbatim>\<open>constructVine\<close>, \<^verbatim>\<open>vineLLH\<close> and \<^verbatim>\<open>treeHfun\<close>: each body is \<^verbatim>\<open>pass\<close>. The instance is
  left as it is and the method returns \<^verbatim>\<open>None\<close>. Each is modelled by the instance after
  the call and the value returned.
\<close>

definition constructVine :: "'p Cvine \<Rightarrow> 'p Cvine \<times> unit option" where
  "constructVine self = (self, None)"

definition vineLLH :: "'p Cvine \<Rightarrow> real list \<Rightarrow> 'p Cvine \<times> real option" where
  "vineLLH self plist = (self, None)"

definition treeHfun :: "'p Cvine \<Rightarrow> int \<Rightarrow> 'p Cvine \<times> unit option" where
  "treeHfun self lvl = (self, None)"

section \<open>Stand-ins for the missing modules\<close>

text \<open>
  Modelled from the spec: the empirical Kendall's tau of the Dependence Estimator
  (\<^verbatim>\<open>PairCopula.empKTau\<close> in \<^verbatim>\<open>pc_base.py\<close>, not among the sources), the rank
  correlation statistic: concordant minus discordant pairs of observations, over the
  number of pairs, as an exact number (the float the estimator returns can differ from it
  in the last place). It is used below on series without ties and with at least two
  observations only.
\<close>

fun pair_signs :: "(real \<times> real) list \<Rightarrow> real" where
  "pair_signs [] = 0"
| "pair_signs (p # ps) =
     sum_list (map (\<lambda>q. sgn (fst p - fst q) * sgn (snd p - snd q)) ps) + pair_signs ps"

definition kendall_tau :: "series \<Rightarrow> series \<Rightarrow> real" where
  "kendall_tau x y =
     pair_signs (zip x y) / (real (length x) * (real (length x) - 1) / 2)"

text \<open>
  Modelled from the spec: the public conditional transform \<^verbatim>\<open>h\<close> of a copula object
  (\<^verbatim>\<open>copula_base.py\<close>, not among the sources), which section 4.1 of the specification
  describes as the family's conditional transform; for the independence family that is
  \<^verbatim>\<open>_h\<close>.
\<close>

definition IndepCopula_model :: "int \<Rightarrow> CopulaModel" where
  "IndepCopula_model rot =
     \<lparr>model_rotation = rot, h = (\<lambda>u v r theta. Inr (IndepCopula_h u v r theta))\<rparr>"

text \<open>
  Two pair-copula constructors for running the tree on concrete data: with \<^verbatim>\<open>empKTau\<close> a
  property, as \<^verbatim>\<open>_selectSpanningTree\<close> reads it, and with \<^verbatim>\<open>empKTau\<close> a method, as
  \<^verbatim>\<open>_setTreeStructure\<close> reads it. The significance is not computed. The tournament of
  both is won by the independence family at rotation 0 with its fixed parameter.
\<close>

definition pc_property :: "series \<Rightarrow> series \<Rightarrow> unit PairCopula" where
  "pc_property x y =
     \<lparr>empKTau = Property (kendall_tau x y, ()),
      copulaTournament = Inr (IndepCopula_model 0, [1])\<rparr>"

definition pc_method :: "series \<Rightarrow> series \<Rightarrow> unit PairCopula" where
  "pc_method x y =
     \<lparr>empKTau = Method (kendall_tau x y, ()),
      copulaTournament = Inr (IndepCopula_model 0, [1])\<rparr>"

text \<open>
  The score the specification gives a candidate root: the sum of the absolute values
  of Kendall's tau between the root and every other node. (A definition from the
  specification's words, to compare the code with.)
\<close>

definition tau_of :: "(series \<Rightarrow> series \<Rightarrow> 'p PairCopula) \<Rightarrow> series \<Rightarrow> series \<Rightarrow> real" where
  "tau_of mkpc x y = (case empKTau (mkpc x y) of Property r \<Rightarrow> fst r | Method r \<Rightarrow> fst r)"

definition pairings_of :: "(series \<Rightarrow> series \<Rightarrow> 'p PairCopula) \<Rightarrow> (label \<Rightarrow> series) \<Rightarrow> label list
    \<Rightarrow> label \<Rightarrow> (label \<times> label \<times> real) list" where
  "pairings_of mkpc f nodeIDs r =
     map (\<lambda>c. (r, c, tau_of mkpc (f r) (f c))) (filter (\<lambda>c. c \<noteq> r) nodeIDs)"

definition signed_sum :: "(series \<Rightarrow> series \<Rightarrow> 'p PairCopula) \<Rightarrow> (label \<Rightarrow> series) \<Rightarrow> label list
    \<Rightarrow> label \<Rightarrow> real" where
  "signed_sum mkpc f nodeIDs r =
     sum_list (map (\<lambda>c. tau_of mkpc (f r) (f c)) (filter (\<lambda>c. c \<noteq> r) nodeIDs))"

text \<open>
  The value of \<^verbatim>\<open>trialKtauSum\<close> for a candidate root whose label differs from the labels
  paired with it: the float64 sum, from zero, of Kendall's tau with each in column
  order.
\<close>

definition float_sum :: "(series \<Rightarrow> series \<Rightarrow> 'p PairCopula) \<Rightarrow> (label \<Rightarrow> series) \<Rightarrow> label list
    \<Rightarrow> label \<Rightarrow> f64" where
  "float_sum mkpc f nodeIDs r =
     foldl f64_add (Finite 0) (map (\<lambda>c. tau_of mkpc (f r) (f c)) (filter (\<lambda>c. c \<noteq> r) nodeIDs))"

definition abs_sum :: "(series \<Rightarrow> series \<Rightarrow> 'p PairCopula) \<Rightarrow> (label \<Rightarrow> series) \<Rightarrow> label list
    \<Rightarrow> label \<Rightarrow> real" where
  "abs_sum mkpc f nodeIDs r =
     sum_list (map (\<lambda>c. \<bar>tau_of mkpc (f r) (f c)\<bar>) (filter (\<lambda>c. c \<noteq> r) nodeIDs))"

section \<open>Concrete data\<close>

text \<open>
  Four series of four pseudo-observations each (ranks over five), without ties, and data
  frames of them with the default integer labels.
\<close>

definition obs_a :: series where "obs_a = [2/5, 1/5, 4/5, 3/5]"

definition obs_b :: series where "obs_b = [1/5, 2/5, 3/5, 4/5]"

definition obs_c :: series where "obs_c = [2/5, 4/5, 1/5, 3/5]"

definition obs_d :: series where "obs_d = [4/5, 3/5, 2/5, 1/5]"

definition obs_e :: series where "obs_e = [1/5, 2/5, 4/5, 3/5]"

definition example_df3 :: DataFrame where
  "example_df3 = [(LInt 0, obs_a), (LInt 1, obs_b), (LInt 2, obs_c)]"

definition example_df4 :: DataFrame where
  "example_df4 = [(LInt 0, obs_a), (LInt 1, obs_b), (LInt 2, obs_c), (LInt 3, obs_d)]"

definition example_tie_df :: DataFrame where
  "example_tie_df = [(LInt 0, obs_b), (LInt 1, obs_e), (LInt 2, obs_d)]"

definition example_df1000 :: DataFrame where
  "example_df1000 = [(LInt 1000, obs_a), (LInt 1001, obs_b), (LInt 1002, obs_c)]"

text \<open>The series of a column, for the columns a data frame has.\<close>

definition series_of :: "DataFrame \<Rightarrow> label \<Rightarrow> series" where
  "series_of df c = (case map_of df c of None \<Rightarrow> [] | Some s \<Rightarrow> s)"

text \<open>
  The instance that lines 112 to 123 of the constructor build from a data frame with
  distinct labels and no level: the data, the number of columns, and a graph with one
  node for each column and no edge.
\<close>

definition built_tree :: "DataFrame \<Rightarrow> 'p Ctree" where
  "built_tree df =
     \<lparr>data = Some df, nT = Some (length df), level = Some None,
      tree = Some \<lparr>node = map (\<lambda>c. (c, [(''data'', series_of df c)])) (columns df),
                   edge = []\<rparr>\<rparr>"

text \<open>Running one method after another, and reading the edges of the result.\<close>

definition and_then :: "error + 'a \<Rightarrow> ('a \<Rightarrow> error + 'b) \<Rightarrow> error + 'b" where
  "and_then r f = (case r of Inl e \<Rightarrow> Inl e | Inr x \<Rightarrow> f x)"

definition edge_weights :: "error + 'p Ctree \<Rightarrow> error + (label \<times> label \<times> real) list" where
  "edge_weights r =
     and_then r (\<lambda>self. and_then (getattr (tree self))
       (\<lambda>g. Inr (map (\<lambda>(k, d). (fst k, snd k, weight d)) (edge g))))"

definition edge_h_dists :: "error + 'p Ctree \<Rightarrow> error + (label \<times> label \<times> pyarg option) list" where
  "edge_h_dists r =
     and_then r (\<lambda>self. and_then (getattr (tree self))
       (\<lambda>g. Inr (map (\<lambda>(k, d). (fst k, snd k, h_dist d)) (edge g))))"

definition node_degrees :: "error + 'p Ctree \<Rightarrow> error + (label \<times> nat) list" where
  "node_degrees r =
     and_then r (\<lambda>self. and_then (getattr (tree self))
       (\<lambda>g. Inr (map (\<lambda>n. (n, degree g n)) (map fst (node g)))))"

section \<open>Rounding to float64\<close>

lemma round_half_even_bounds:
  "\<lfloor>q\<rfloor> \<le> round_half_even q \<and> round_half_even q \<le> \<lfloor>q\<rfloor> + 1"
  by (simp add: round_half_even_def Let_def)

lemma round_half_even_int: "round_half_even (of_int k) = k"
  by (simp add: round_half_even_def)

lemma floor_log2:
  assumes "2 powr of_int k \<le> y" and "y < 2 powr (of_int k + 1)"
  shows "\<lfloor>log 2 y\<rfloor> = k"
proof -
  have y: "0 < y"
    using assms(1) by (smt (verit) powr_gt_zero)
  have "of_int k \<le> log 2 y"
    using assms(1) y by (simp add: le_log_iff)
  moreover have "log 2 y < of_int k + 1"
    using assms(2) y by (simp add: log_less_iff)
  ultimately show ?thesis
    by (simp add: floor_eq_iff)
qed

lemma powr_diff_nat: "(2::real) powr (real a - real b) = 2 ^ a / 2 ^ b"
proof -
  have "(2::real) powr (real a - real b) = 2 powr real a / 2 powr real b"
    by (rule powr_diff)
  then show ?thesis
    by (simp only: powr_realpow [of "2::real", simplified])
qed

lemma powr_neg_nat: "(2::real) powr of_int (- int n) = 1 / 2 ^ n"
  using powr_diff_nat [of 0 n] by simp

text \<open>
  The float nearest to \<open>x\<close>, for a normal \<open>x\<close> of magnitude below \<open>2\<close> to the 53 (its
  spacing is \<open>2\<close> to the \<open>-n\<close>) and for a subnormal \<open>x\<close>.
\<close>

lemma ulp_exp_normal:
  assumes "2 ^ 52 \<le> \<bar>x\<bar> * 2 ^ n" and "\<bar>x\<bar> * 2 ^ n < 2 ^ 53" and "n \<le> 1074"
  shows "ulp_exp x = - int n"
proof -
  have "(2::real) powr of_int (52 - int n) = 2 ^ 52 / 2 ^ n"
    using powr_diff_nat [of 52 n] by simp
  then have lo: "2 powr of_int (52 - int n) \<le> \<bar>x\<bar>"
    using assms(1) by (simp add: divide_le_eq)
  have "(2::real) powr (of_int (52 - int n) + 1) = 2 ^ 53 / 2 ^ n"
    using powr_diff_nat [of 53 n] by (simp add: algebra_simps)
  then have hi: "\<bar>x\<bar> < 2 powr (of_int (52 - int n) + 1)"
    using assms(2) by (simp add: less_divide_eq)
  have "\<lfloor>log 2 \<bar>x\<bar>\<rfloor> = 52 - int n"
    using lo hi by (rule floor_log2)
  then show ?thesis
    using assms(3) by (simp add: ulp_exp_def)
qed

lemma fl64_at_exp:
  assumes "x \<noteq> 0" and "ulp_exp x = - int n"
  shows "fl64 x = of_int (round_half_even (x * 2 ^ n)) / 2 ^ n"
proof -
  have "fl64 x = of_int (round_half_even (x / 2 powr of_int (- int n))) * 2 powr of_int (- int n)"
    using assms by (simp only: fl64_def if_False)
  then show ?thesis
    by (simp only: powr_neg_nat) simp
qed

lemma fl64_normal:
  assumes "2 ^ 52 \<le> \<bar>x\<bar> * 2 ^ n" and "\<bar>x\<bar> * 2 ^ n < 2 ^ 53" and "n \<le> 1074"
  shows "fl64 x = of_int (round_half_even (x * 2 ^ n)) / 2 ^ n"
proof -
  have "x \<noteq> 0" using assms(1) by auto
  moreover have "ulp_exp x = - int n"
    using assms by (rule ulp_exp_normal)
  ultimately show ?thesis
    by (rule fl64_at_exp)
qed

lemma ulp_exp_subnormal:
  assumes "x \<noteq> 0" and "\<bar>x\<bar> * 2 ^ 1074 < 2 ^ 52"
  shows "ulp_exp x = - int 1074"
proof -
  have "(2::real) powr (- 1022) = 2 ^ 52 / 2 ^ 1074"
    using powr_diff_nat [of 52 1074] by simp
  then have "\<bar>x\<bar> < 2 powr (- 1022)"
    using assms(2) by (simp add: less_divide_eq)
  then have "log 2 \<bar>x\<bar> < - 1022"
    using assms(1) by (simp add: log_less_iff)
  then have "\<lfloor>log 2 \<bar>x\<bar>\<rfloor> - 52 \<le> - 1074"
    by linarith
  then have "max (\<lfloor>log 2 \<bar>x\<bar>\<rfloor> - 52) (- 1074) = - 1074"
    by (rule max_absorb2)
  then show ?thesis
    by (simp only: ulp_exp_def)
qed

lemma fl64_subnormal:
  assumes "\<bar>x\<bar> * 2 ^ 1074 < 2 ^ 52"
  shows "fl64 x = of_int (round_half_even (x * 2 ^ 1074)) / 2 ^ 1074"
proof (cases "x = 0")
  case True
  then show ?thesis by (simp add: fl64_def round_half_even_def)
next
  case False
  then have "ulp_exp x = - int 1074"
    using assms by (rule ulp_exp_subnormal)
  with False show ?thesis
    by (rule fl64_at_exp)
qed

text \<open>Rounding a number of the open unit interval.\<close>

lemma ulp_exp_unit:
  assumes "0 < x" and "x < 1"
  shows "\<exists>n. 53 \<le> n \<and> n \<le> 1074 \<and> ulp_exp x = - int n"
proof -
  have "log 2 \<bar>x\<bar> < 0"
    using assms by simp
  then have "\<lfloor>log 2 \<bar>x\<bar>\<rfloor> - 52 \<le> - 53"
    by linarith
  then have e: "ulp_exp x \<le> - 53" "- 1074 \<le> ulp_exp x"
    by (simp_all add: ulp_exp_def)
  define n where "n = nat (- ulp_exp x)"
  have "53 \<le> n \<and> n \<le> 1074 \<and> ulp_exp x = - int n"
    using e unfolding n_def by arith
  then show ?thesis ..
qed

lemma fl64_below_pow2:
  assumes "0 < x" and "x < 1 / 2 ^ k" and "k \<le> 53"
  shows "0 \<le> fl64 x \<and> fl64 x \<le> 1 / 2 ^ k"
proof -
  have x1: "x < 1"
  proof -
    have "1 / (2::real) ^ k \<le> 1" by simp
    with assms(2) show ?thesis by (rule less_le_trans)
  qed
  obtain n where n: "53 \<le> n" "n \<le> 1074" "ulp_exp x = - int n"
    using ulp_exp_unit [OF assms(1) x1] by blast
  have fl: "fl64 x = of_int (round_half_even (x * 2 ^ n)) / 2 ^ n"
    using assms(1) n(3) by (intro fl64_at_exp) simp_all
  let ?q = "x * 2 ^ n"
  have kn: "k \<le> n" using assms(3) n(1) by simp
  have "0 \<le> \<lfloor>?q\<rfloor>"
    using assms(1) by simp
  then have lo: "0 \<le> round_half_even ?q"
    using round_half_even_bounds [of ?q] by linarith
  have "?q < (1 / 2 ^ k) * 2 ^ n"
    using assms(2) by (intro mult_strict_right_mono) simp_all
  also have "(1 / 2 ^ k) * 2 ^ n = (2::real) ^ (n - k)"
    using kn by (simp add: power_diff)
  finally have "?q < of_int (2 ^ (n - k))" by simp
  then have "\<lfloor>?q\<rfloor> < 2 ^ (n - k)"
    by (simp only: floor_less_iff)
  then have hi: "round_half_even ?q \<le> 2 ^ (n - k)"
    using round_half_even_bounds [of ?q] by linarith
  from hi have "(of_int (round_half_even ?q) :: real) \<le> of_int (2 ^ (n - k))"
    by (simp only: of_int_le_iff)
  then have "of_int (round_half_even ?q) \<le> (2::real) ^ (n - k)"
    by simp
  then have "fl64 x \<le> 2 ^ (n - k) / 2 ^ n"
    unfolding fl by (intro divide_right_mono) simp_all
  also have "(2::real) ^ n = 2 ^ (n - k) * 2 ^ k"
    using kn by (simp add: power_add [symmetric])
  finally have "fl64 x \<le> 1 / 2 ^ k"
    by simp
  moreover have "0 \<le> fl64 x"
    unfolding fl using lo by simp
  ultimately show ?thesis by simp
qed

text \<open>The largest float below 1 is \<open>1 - 2\<close> to the \<open>-53\<close>.\<close>

lemma f64_below_one:
  assumes "fl64 x = x" and "0 < x" and "x < 1"
  shows "x \<le> 1 - 1 / 2 ^ 53"
proof (cases "x < 1/2")
  case True
  then show ?thesis by simp
next
  case False
  have "fl64 x = of_int (round_half_even (x * 2 ^ 53)) / 2 ^ 53"
    using False assms(3) by (intro fl64_normal) simp_all
  with assms(1) have eq: "x * 2 ^ 53 = of_int (round_half_even (x * 2 ^ 53))"
    by simp
  moreover have "x * 2 ^ 53 < 2 ^ 53"
    using assms(3) by simp
  ultimately have "of_int (round_half_even (x * 2 ^ 53)) < (2::real) ^ 53"
    by simp
  then have "round_half_even (x * 2 ^ 53) < 2 ^ 53"
    by simp
  then have "round_half_even (x * 2 ^ 53) \<le> 2 ^ 53 - 1"
    by simp
  then have "(of_int (round_half_even (x * 2 ^ 53)) :: real) \<le> of_int (2 ^ 53 - 1)"
    by (simp only: of_int_le_iff)
  then have "of_int (round_half_even (x * 2 ^ 53)) \<le> (2::real) ^ 53 - 1"
    by simp
  with eq have "x * 2 ^ 53 \<le> 2 ^ 53 - 1" by simp
  then show ?thesis by (simp add: field_simps)
qed

lemma fl64_below_one:
  assumes "0 < p" and "p \<le> 1 - 1 / 2 ^ 53"
  shows "0 \<le> fl64 p \<and> fl64 p < 1"
proof (cases "p < 1/2")
  case True
  then have "0 \<le> fl64 p \<and> fl64 p \<le> 1 / 2 ^ 1"
    using assms(1) by (intro fl64_below_pow2) simp_all
  then show ?thesis by simp
next
  case False
  have p1: "p < 1" using assms(2) by simp
  have fl: "fl64 p = of_int (round_half_even (p * 2 ^ 53)) / 2 ^ 53"
    using False p1 by (intro fl64_normal) simp_all
  have "p * 2 ^ 53 \<le> 2 ^ 53 - 1"
    using assms(2) by (simp add: field_simps)
  then have a: "p * 2 ^ 53 \<le> of_int (2 ^ 53 - 1)" by simp
  have "round_half_even (p * 2 ^ 53) \<le> 2 ^ 53 - 1"
  proof (cases "p * 2 ^ 53 = of_int (2 ^ 53 - 1)")
    case True
    then show ?thesis by (simp only: round_half_even_int)
  next
    case False
    with a have "p * 2 ^ 53 < of_int (2 ^ 53 - 1)" by simp
    then have "\<lfloor>p * 2 ^ 53\<rfloor> < 2 ^ 53 - 1" by (simp only: floor_less_iff)
    then show ?thesis
      using round_half_even_bounds [of "p * 2 ^ 53"] by linarith
  qed
  then have "(of_int (round_half_even (p * 2 ^ 53)) :: real) \<le> of_int (2 ^ 53 - 1)"
    by (simp only: of_int_le_iff)
  then have "of_int (round_half_even (p * 2 ^ 53)) \<le> (2::real) ^ 53 - 1"
    by simp
  then have "fl64 p \<le> (2 ^ 53 - 1) / 2 ^ 53"
    unfolding fl by (intro divide_right_mono) simp_all
  moreover have "0 \<le> fl64 p"
    using fl64_below_pow2 [of p 0] assms(1) p1 by simp
  ultimately show ?thesis by simp
qed

text \<open>
  The float64 product of two floats of the open unit interval is a finite float, at
  least 0 and below 1.
\<close>

lemma f64_mul_unit:
  assumes "is_f64 x" "0 < x" "x < 1" "is_f64 y" "0 < y" "y < 1"
  shows "\<exists>r. f64_mul x y = Finite r \<and> 0 \<le> r \<and> r < 1"
proof -
  have fx: "fl64 x = x" and fy: "fl64 y = y"
    using assms(1) assms(4) by (simp_all add: is_f64_def)
  have x: "x \<le> 1 - 1 / 2 ^ 53" using fx assms(2) assms(3) by (rule f64_below_one)
  have "x * y \<le> x * 1" using assms(2) assms(6) by (intro mult_left_mono) simp_all
  with x have p: "x * y \<le> 1 - 1 / 2 ^ 53" by simp
  have "0 < x * y" using assms(2) assms(5) by simp
  then have b: "0 \<le> fl64 (x * y) \<and> fl64 (x * y) < 1" using p by (rule fl64_below_one)
  then have "\<bar>fl64 (x * y)\<bar> < 1" by simp
  also have "(1::real) < 2 ^ 1024" by (rule one_less_power) simp_all
  finally have "f64_of_real (x * y) = Finite (fl64 (x * y))"
    by (simp only: f64_of_real_def if_True)
  with b show ?thesis by (auto simp: f64_mul_def)
qed

lemma map2_f64_mul_unit:
  "length u = length v \<Longrightarrow> \<forall>x \<in> set u. is_f64 x \<and> 0 < x \<and> x < 1
   \<Longrightarrow> \<forall>y \<in> set v. is_f64 y \<and> 0 < y \<and> y < 1
   \<Longrightarrow> \<forall>z \<in> set (map2 f64_mul u v). \<exists>r. z = Finite r \<and> 0 \<le> r \<and> r < 1"
proof (induction u v rule: list_induct2)
  case Nil
  then show ?case by simp
next
  case (Cons x xs y ys)
  have "\<exists>r. f64_mul x y = Finite r \<and> 0 \<le> r \<and> r < 1"
    using Cons.prems by (intro f64_mul_unit) simp_all
  moreover have "\<forall>z \<in> set (map2 f64_mul xs ys). \<exists>r. z = Finite r \<and> 0 \<le> r \<and> r < 1"
    using Cons.IH Cons.prems by simp
  ultimately show ?case
    by simp
qed

section \<open>Properties of the independence copula\<close>

lemma sum_list_replicate_zero: "sum_list (replicate n (0::real)) = 0"
  by (induction n) simp_all

text \<open>
  Claim C3. For the independence family the density of any pair of series is the constant
  sequence 1, as long as the first series; the log-likelihood of any data, the sum of the
  logarithms of that density, is therefore 0; and the conditional transform returns its
  second argument \<open>v\<close> unchanged. None of this depends on the rotation, the parameters,
  the lengths or the range of the values.
\<close>

theorem indep_density_one_conditional_v:
  "IndepCopula_pdf u v rot args = replicate (length u) 1
   \<and> logLikelihood (IndepCopula_pdf u v rot args) = 0
   \<and> IndepCopula_h u v rot args = v"
  by (simp add: IndepCopula_pdf_def IndepCopula_h_def logLikelihood_def
      sum_list_replicate_zero)

text \<open>
  Claim C2, as stated, at the independence family: the round trip
  \<open>conditional (conditionalInverse u v) v\<close> gives back \<open>v\<close>, not \<open>u\<close>. At
  \<open>u = [1/4]\<close>, \<open>v = [1/2]\<close> with the family's own parameter \<open>[1]\<close> it returns
  \<open>[1/2]\<close>.
\<close>

theorem indep_round_trip_first_argument_fails:
  "IndepCopula_h (IndepCopula_hinv [1/4 :: real] [1/2 :: real] 0 [1]) [1/2 :: real] 0 [1]
     \<noteq> [1/4 :: real]"
  by (simp add: IndepCopula_h_def IndepCopula_hinv_def)

text \<open>
  Claim C2, amended. For the independence family the inverse is taken in the second
  argument: \<open>conditional u (conditionalInverse u v) = v\<close> exactly, for every \<open>u\<close>,
  \<open>v\<close>, rotation and parameter vector. In the order the claim composes them,
  \<open>conditional (conditionalInverse u v) v\<close> is \<open>v\<close>.
\<close>

theorem indep_round_trip_second_argument:
  "IndepCopula_h u (IndepCopula_hinv u v rot args) rot args = v
   \<and> IndepCopula_h (IndepCopula_hinv u v rot args) v rot args = v"
  by (simp add: IndepCopula_h_def IndepCopula_hinv_def)

text \<open>
  Claim C10, as stated: the float \<open>2\<close> to the \<open>-540\<close> lies strictly between 0 and 1, and
  the cumulative distribution of the one-element series holding it, with itself, is the
  float 0: the product \<open>2\<close> to the \<open>-1080\<close> is below half the smallest positive float and
  rounds to zero. The value returned is not in the open unit interval.
\<close>

theorem indep_cdf_underflows_to_zero:
  "IndepCopula_cdf [1 / 2 ^ 540] [1 / 2 ^ 540] 0 [1] = Inr [Finite 0]
   \<and> is_f64 (1 / 2 ^ 540) \<and> (0::real) < 1 / 2 ^ 540 \<and> (1::real) / 2 ^ 540 < 1"
proof -
  have "fl64 (1 / 2 ^ 540 * (1 / 2 ^ 540)) = 0"
    by (simp add: fl64_subnormal round_half_even_def)
  then have "IndepCopula_cdf [1 / 2 ^ 540] [1 / 2 ^ 540] 0 [1] = Inr [Finite 0]"
    by (simp add: IndepCopula_cdf_def np_mul_def f64_mul_def f64_of_real_def)
  moreover have "fl64 (1 / 2 ^ 540) = 1 / 2 ^ 540"
    by (simp add: fl64_normal [of _ 592] round_half_even_def)
  then have "is_f64 (1 / 2 ^ 540)"
    by (simp add: is_f64_def)
  ultimately show ?thesis
    by simp
qed

text \<open>
  Claim C10, amended. For the independence family and series \<open>u\<close>, \<open>v\<close> of equal length
  whose values are floats strictly between 0 and 1, the cumulative distribution returns,
  without error, the elementwise float64 product, and every value of it is a finite
  float that is at least 0 and strictly below 1.
\<close>

theorem indep_cdf_product:
  assumes "length u = length v"
    and "\<forall>x \<in> set u. is_f64 x \<and> 0 < x \<and> x < 1"
    and "\<forall>y \<in> set v. is_f64 y \<and> 0 < y \<and> y < 1"
  shows "IndepCopula_cdf u v rot args = Inr (map2 f64_mul u v)
         \<and> (\<forall>z \<in> set (map2 f64_mul u v). \<exists>r. z = Finite r \<and> 0 \<le> r \<and> r < 1)"
proof -
  have "\<forall>z \<in> set (map2 f64_mul u v). \<exists>r. z = Finite r \<and> 0 \<le> r \<and> r < 1"
    using assms by (rule map2_f64_mul_unit)
  moreover have "IndepCopula_cdf u v rot args = Inr (map2 f64_mul u v)"
    using assms(1) by (simp add: IndepCopula_cdf_def np_mul_def)
  ultimately show ?thesis by blast
qed

theorem indep_cdf_product_witness:
  "IndepCopula_cdf [1/2, 1/4] [1/4, 3/4] 0 [1] = Inr [Finite (1/8), Finite (3/16)]"
proof -
  have h: "fl64 (1/2) = 1/2" and q: "fl64 (1/4) = 1/4" and t: "fl64 (3/4) = 3/4"
    by (simp_all add: fl64_normal [of _ 53] fl64_normal [of _ 54] round_half_even_def)
  have e: "fl64 (1/8) = 1/8" and s: "fl64 (3/16) = 3/16"
    by (simp_all add: fl64_normal [of _ 55] round_half_even_def)
  have 1: "length [1/2, 1/4 :: real] = length [1/4, 3/4 :: real]"
    by simp
  have 2: "\<forall>x \<in> set [1/2, 1/4 :: real]. is_f64 x \<and> 0 < x \<and> x < 1"
    using h q by (simp add: is_f64_def)
  have 3: "\<forall>y \<in> set [1/4, 3/4 :: real]. is_f64 y \<and> 0 < y \<and> y < 1"
    using q t by (simp add: is_f64_def)
  have "map2 f64_mul [1/2, 1/4] [1/4, 3/4] = [Finite (1/8), Finite (3/16)]"
    using e s by (simp add: f64_mul_def f64_of_real_def)
  then show ?thesis
    using indep_cdf_product [OF 1 2 3, of 0 "[1]"] by simp
qed

section \<open>The constructor of a tree level\<close>

text \<open>
  Claim C9. For every data argument, level and label list, the call \<^verbatim>\<open>Ctree(...)\<close>
  raises before it completes: the assertion on line 111 reads \<^verbatim>\<open>self.data\<close> of the new
  instance, which has no such attribute yet, and the result is \<^verbatim>\<open>AttributeError\<close>. So no
  instance is ever returned by the constructor.
\<close>

theorem Ctree_constructor_raises:
  "(Ctree_call dat lvl labels :: error + 'p Ctree) = Inl AttributeError"
  by (simp add: Ctree_call_def Ctree_init_def Ctree_new_def getattr_def)

text \<open>
  The methods of the class are therefore studied on the instances that the rest of the
  constructor, lines 112 to 123, builds.
\<close>

lemma getitem_column:
  "c \<in> set (columns df) \<Longrightarrow> getitem df c = Inr (series_of df c)"
proof -
  assume "c \<in> set (columns df)"
  then have "map_of df c \<noteq> None"
    by (simp add: columns_def map_of_eq_None_iff)
  then show ?thesis
    by (auto simp: getitem_def series_of_def)
qed

lemma buildNodes_loop_appends:
  "set cs \<subseteq> set (columns df) \<Longrightarrow> distinct cs \<Longrightarrow> set cs \<inter> fst ` set (node g) = {}
   \<Longrightarrow> buildNodes_loop df cs g =
       Inr (g\<lparr>node := node g @ map (\<lambda>c. (c, [(''data'', series_of df c)])) cs\<rparr>)"
proof (induction cs arbitrary: g)
  case Nil
  then show ?case by simp
next
  case (Cons c cs)
  let ?g = "add_node g c [(''data'', series_of df c)]"
  have fresh: "c \<notin> fst ` set (node g)"
    using Cons.prems(3) by auto
  then have g': "?g = g\<lparr>node := node g @ [(c, [(''data'', series_of df c)])]\<rparr>"
    by (simp add: add_node_def)
  have "set cs \<inter> fst ` set (node ?g) = {}"
    using Cons.prems(2) Cons.prems(3) by (auto simp: g')
  then have "buildNodes_loop df cs ?g =
      Inr (?g\<lparr>node := node ?g @ map (\<lambda>c. (c, [(''data'', series_of df c)])) cs\<rparr>)"
    using Cons.prems(1) Cons.prems(2) by (intro Cons.IH) simp_all
  moreover have "getitem df c = Inr (series_of df c)"
    using Cons.prems(1) by (intro getitem_column) simp
  ultimately show ?case
    by (simp add: g')
qed

lemma Ctree_init_body_built:
  assumes "distinct (columns df)"
  shows "Ctree_init_body Ctree_new (PyDataFrame df) None None
         = (Inr (built_tree df) :: error + 'p Ctree)"
proof -
  have "buildNodes_loop df (columns df) (\<lparr>node = [], edge = []\<rparr> :: 'p Graph) =
        Inr \<lparr>node = map (\<lambda>c. (c, [(''data'', series_of df c)])) (columns df), edge = []\<rparr>"
    using buildNodes_loop_appends [of "columns df" df "\<lparr>node = [], edge = []\<rparr> :: 'p Graph"] assms
    by simp
  then show ?thesis
    by (simp add: Ctree_init_body_def Ctree_new_def buildNodes_def getattr_def built_tree_def
        nx_Graph_def)
qed

lemma map_of_keyed: "c \<in> set cs \<Longrightarrow> map_of (map (\<lambda>c. (c, F c)) cs) c = Some (F c)"
  by (induction cs) auto

lemma built_tree_node_data:
  "c \<in> set (columns df) \<Longrightarrow>
   node_data \<lparr>node = map (\<lambda>c. (c, [(''data'', series_of df c)])) (columns df), edge = []\<rparr> c
     = Inr (series_of df c)"
  by (simp add: node_data_def map_of_keyed)

section \<open>Kendall's tau of the concrete series\<close>

lemma tau_ab: "kendall_tau obs_a obs_b = 1/3"
  by (simp add: kendall_tau_def obs_a_def obs_b_def)

lemma tau_ac: "kendall_tau obs_a obs_c = -2/3"
  by (simp add: kendall_tau_def obs_a_def obs_c_def)

lemma tau_bc: "kendall_tau obs_b obs_c = 0"
  by (simp add: kendall_tau_def obs_b_def obs_c_def)

lemma tau_ba: "kendall_tau obs_b obs_a = 1/3"
  by (simp add: kendall_tau_def obs_a_def obs_b_def)

lemma tau_ca: "kendall_tau obs_c obs_a = -2/3"
  by (simp add: kendall_tau_def obs_a_def obs_c_def)

lemma tau_cb: "kendall_tau obs_c obs_b = 0"
  by (simp add: kendall_tau_def obs_b_def obs_c_def)

lemma tau_cd: "kendall_tau obs_c obs_d = 0"
  by (simp add: kendall_tau_def obs_c_def obs_d_def)

lemma tau_aa: "kendall_tau obs_a obs_a = 1"
  by (simp add: kendall_tau_def obs_a_def)

lemma tau_bb: "kendall_tau obs_b obs_b = 1"
  by (simp add: kendall_tau_def obs_b_def)

lemma tau_cc: "kendall_tau obs_c obs_c = 1"
  by (simp add: kendall_tau_def obs_c_def)

lemma tau_be: "kendall_tau obs_b obs_e = 2/3"
  by (simp add: kendall_tau_def obs_b_def obs_e_def)

lemma tau_eb: "kendall_tau obs_e obs_b = 2/3"
  by (simp add: kendall_tau_def obs_b_def obs_e_def)

lemma tau_bd: "kendall_tau obs_b obs_d = -1"
  by (simp add: kendall_tau_def obs_b_def obs_d_def)

lemma tau_db: "kendall_tau obs_d obs_b = -1"
  by (simp add: kendall_tau_def obs_b_def obs_d_def)

lemma tau_ed: "kendall_tau obs_e obs_d = -2/3"
  by (simp add: kendall_tau_def obs_e_def obs_d_def)

lemma tau_de: "kendall_tau obs_d obs_e = -2/3"
  by (simp add: kendall_tau_def obs_e_def obs_d_def)

lemmas taus = tau_ab tau_ac tau_bc tau_ba tau_ca tau_cb tau_cd tau_aa tau_bb tau_cc
  tau_be tau_eb tau_bd tau_db tau_ed tau_de

section \<open>Automatic root selection\<close>

text \<open>The index \<^verbatim>\<open>np.argmax\<close> returns lies in the array.\<close>

lemma argmax_scan_bound:
  "best < i \<Longrightarrow> argmax_scan xs i best m < i + length xs"
proof (induction xs arbitrary: i best m)
  case Nil
  then show ?case by simp
next
  case (Cons x xs)
  have "argmax_scan xs (Suc i) i x < Suc i + length xs"
    by (rule Cons.IH) simp
  moreover have "argmax_scan xs (Suc i) best m < Suc i + length xs"
    using Cons.prems by (intro Cons.IH) simp
  ultimately show ?case by simp
qed

lemma np_argmax_in_range:
  "xs \<noteq> [] \<Longrightarrow> \<exists>j < length xs. np_argmax xs = Inr j"
proof (cases xs)
  case Nil
  assume "xs \<noteq> []"
  with Nil show ?thesis by simp
next
  case (Cons x rest)
  have "argmax_scan rest 1 0 x < 1 + length rest"
    by (rule argmax_scan_bound) simp
  with Cons show ?thesis by (simp add: np_argmax_def)
qed

text \<open>
  On an index whose labels are yielded as the same object every time, the identity
  test of line 185 is the inequality of the labels.
\<close>

lemma is_not_comparable:
  assumes "identity_comparable index" and "r \<in> set index"
  shows "is_not index c r = (c \<noteq> r)"
proof -
  have "is_object index r r"
    using assms by (simp add: identity_comparable_def list_all_iff)
  then show ?thesis
    by (auto simp: is_not_def is_object_def)
qed

text \<open>
  The two loops, when \<^verbatim>\<open>empKTau\<close> is the pair that line 188 unpacks and every label is a
  node holding a series.
\<close>

lemma selectSpanningTree_inner_result:
  assumes "\<forall>a b. \<exists>r. empKTau (mkpc a b) = Property r"
    and "node_data g r = Inr (f r)"
    and "\<forall>c \<in> set cs. node_data g c = Inr (f c)"
  shows "selectSpanningTree_inner mkpc g index r cs acc =
         Inr (foldl f64_add (fst acc)
                (map (\<lambda>c. tau_of mkpc (f r) (f c)) (filter (\<lambda>c. is_not index c r) cs)),
              snd acc @ map (\<lambda>c. (r, c, tau_of mkpc (f r) (f c)))
                (filter (\<lambda>c. is_not index c r) cs))"
  using assms(3)
proof (induction cs arbitrary: acc)
  case Nil
  then show ?case by simp
next
  case (Cons c cs)
  have IH: "\<And>acc. selectSpanningTree_inner mkpc g index r cs acc =
         Inr (foldl f64_add (fst acc)
                (map (\<lambda>c. tau_of mkpc (f r) (f c)) (filter (\<lambda>c. is_not index c r) cs)),
              snd acc @ map (\<lambda>c. (r, c, tau_of mkpc (f r) (f c)))
                (filter (\<lambda>c. is_not index c r) cs))"
    using Cons by simp
  show ?case
  proof (cases "is_not index c r")
    case False
    then show ?thesis using IH by simp
  next
    case True
    obtain t p where tp: "empKTau (mkpc (f r) (f c)) = Property (t, p)"
      using assms(1) by (metis surj_pair)
    have t: "tau_of mkpc (f r) (f c) = t"
      using tp by (simp add: tau_of_def)
    have c: "node_data g c = Inr (f c)"
      using Cons.prems by simp
    show ?thesis
      using True assms(2) c tp t IH by (simp add: unpack_attr_def)
  qed
qed

lemma selectSpanningTree_outer_result:
  assumes "\<forall>a b. \<exists>r. empKTau (mkpc a b) = Property r"
    and "\<forall>c \<in> set ids. node_data g c = Inr (f c)"
    and "identity_comparable ids"
    and "set rs \<subseteq> set ids"
  shows "selectSpanningTree_outer mkpc g ids rs acc =
         Inr (fst acc @ map (float_sum mkpc f ids) rs, snd acc @ map (pairings_of mkpc f ids) rs)"
  using assms(4)
proof (induction rs arbitrary: acc)
  case Nil
  then show ?case by simp
next
  case (Cons r rs)
  have rin: "r \<in> set ids"
    using Cons.prems by simp
  have r: "node_data g r = Inr (f r)"
    using rin assms(2) by simp
  have flt: "filter (\<lambda>c. is_not ids c r) ids = filter (\<lambda>c. c \<noteq> r) ids"
    using is_not_comparable [OF assms(3) rin] by simp
  have "selectSpanningTree_inner mkpc g ids r ids (Finite 0, []) =
        Inr (float_sum mkpc f ids r, pairings_of mkpc f ids r)"
    using selectSpanningTree_inner_result [OF assms(1) r assms(2), of ids "(Finite 0, [])"]
    by (simp add: float_sum_def pairings_of_def flt)
  moreover have "set rs \<subseteq> set ids"
    using Cons.prems by simp
  ultimately show ?case
    using Cons.IH by simp
qed

lemma selectSpanningTree_selects_a_column:
  assumes "\<forall>x y. \<exists>r. empKTau (mkpc x y) = Property r"
    and "data self = Some df" and "tree self = Some g"
    and "\<forall>c \<in> set (columns df). node_data g c = Inr (f c)"
    and "identity_comparable (columns df)" and "columns df \<noteq> []"
  shows "\<exists>r \<in> set (columns df).
           selectSpanningTree mkpc self = Inr (pairings_of mkpc f (columns df) r)"
proof -
  let ?ids = "columns df"
  let ?sums = "map (float_sum mkpc f ?ids) ?ids"
  have outer: "selectSpanningTree_outer mkpc g ?ids ?ids ([], []) =
               Inr (?sums, map (pairings_of mkpc f ?ids) ?ids)"
    using selectSpanningTree_outer_result [OF assms(1) assms(4) assms(5), of ?ids "([], [])"]
    by simp
  have "map f64_abs ?sums \<noteq> []"
    using assms(6) by simp
  then obtain j where j: "j < length (map f64_abs ?sums)" "np_argmax (map f64_abs ?sums) = Inr j"
    using np_argmax_in_range by blast
  have jl: "j < length ?ids" using j(1) by simp
  have "selectSpanningTree mkpc self = Inr (pairings_of mkpc f ?ids (?ids ! j))"
    using outer assms(2) assms(3) j(2) jl
    by (simp add: selectSpanningTree_def getattr_def)
  moreover have "?ids ! j \<in> set ?ids"
    using jl by simp
  ultimately show ?thesis by blast
qed

text \<open>
  The float64 sums of the concrete examples. The float nearest to 1/3 is
  \<open>6004799503160661 / 2 ^ 54\<close>, the float nearest to 2/3 is twice that.
\<close>

lemma float_sums_example3:
  "foldl f64_add (Finite 0) [1/3, - (2/3)] = Finite (- (6004799503160662 / 2 ^ 54))"
  "foldl f64_add (Finite 0) [1/3, 0] = Finite (6004799503160661 / 2 ^ 54)"
  "foldl f64_add (Finite 0) [- (2/3), 0] = Finite (- (6004799503160661 / 2 ^ 53))"
  by (simp_all add: f64_of_real_def fl64_normal [of _ 54] fl64_normal [of _ 53]
      round_half_even_def)

lemma float_sums_example_tie:
  "foldl f64_add (Finite 0) [2/3, - 1] = Finite (- (6004799503160662 / 2 ^ 54))"
  "foldl f64_add (Finite 0) [2/3, - (2/3)] = Finite (- (6004799503160661 / 2 ^ 107))"
  "foldl f64_add (Finite 0) [- 1, - (2/3)] = Finite (- (7505999378950827 / 2 ^ 52))"
  by (simp_all add: f64_of_real_def fl64_normal [of _ 54] fl64_normal [of _ 53]
      fl64_normal [of _ 52] fl64_normal [of _ 107] round_half_even_def)

lemmas float_eval = f64_of_real_def round_half_even_def
  fl64_normal [of _ 52] fl64_normal [of _ 53] fl64_normal [of _ 54] fl64_normal [of _ 107]

text \<open>
  The three-column example: Kendall's tau is 1/3 between columns 0 and 1, -2/3 between
  columns 0 and 2, and 0 between columns 1 and 2. The signed sums of the three candidate
  roots are -1/3, 1/3 and -2/3, up to rounding, so the code selects column 2.
\<close>

lemma example3_selected:
  "selectSpanningTree pc_property (built_tree example_df3 :: unit Ctree)
     = Inr [(LInt 2, LInt 0, - (2 / 3)), (LInt 2, LInt 1, 0)]"
  by (simp add: selectSpanningTree_def built_tree_def getattr_def columns_def example_df3_def
      node_data_def unpack_attr_def pc_property_def np_argmax_def series_of_def taus
      is_not_def is_object_def float_eval)

text \<open>
  With \<^verbatim>\<open>empKTau\<close> a method, as \<^verbatim>\<open>_setTreeStructure\<close> calls it, the unpacking on line 188
  raises on the same data.
\<close>

lemma example3_method_raises:
  "selectSpanningTree pc_method (built_tree example_df3 :: unit Ctree) = Inl TypeError"
  by (simp add: selectSpanningTree_def built_tree_def getattr_def columns_def example_df3_def
      node_data_def unpack_attr_def pc_method_def series_of_def is_not_def is_object_def)

text \<open>
  The same three columns under the labels 1000, 1001 and 1002: each iteration yields new
  label objects, the identity test of line 185 never finds the root, and every candidate
  is paired with itself as well, with Kendall's tau 1. The sums are 2/3, 4/3 and 1/3, and
  the code returns the three pairings of column 1001.
\<close>

lemma example1000_selected:
  "selectSpanningTree pc_property (built_tree example_df1000 :: unit Ctree)
     = Inr [(LInt 1001, LInt 1000, 1/3), (LInt 1001, LInt 1001, 1), (LInt 1001, LInt 1002, 0)]"
  by (simp add: selectSpanningTree_def built_tree_def getattr_def columns_def
      example_df1000_def node_data_def unpack_attr_def pc_property_def np_argmax_def
      series_of_def taus is_not_def is_object_def float_eval)

text \<open>
  Claim C1, on the code. On the three-column example the code selects column 2 as root,
  whose sum of absolute values of Kendall's tau is 2/3, while column 0 has the sum 1:
  the code maximises the absolute value of the signed sum (-1/3, 1/3, -2/3), not the sum
  of the absolute values (1, 1/3, 2/3).
\<close>

theorem root_selection_takes_abs_of_signed_sum:
  "selectSpanningTree pc_property (built_tree example_df3 :: unit Ctree)
     = Inr [(LInt 2, LInt 0, - (2 / 3)), (LInt 2, LInt 1, 0)]
   \<and> map (abs_sum pc_property (series_of example_df3) (columns example_df3))
         (columns example_df3) = [1, 1/3, 2/3]
   \<and> map (signed_sum pc_property (series_of example_df3) (columns example_df3))
         (columns example_df3) = [- (1/3), 1/3, - (2/3)]"
proof -
  have "map (abs_sum pc_property (series_of example_df3) (columns example_df3))
         (columns example_df3) = [1, 1/3, 2/3]"
    by (simp add: abs_sum_def series_of_def columns_def example_df3_def tau_of_def
        pc_property_def taus)
  moreover have "map (signed_sum pc_property (series_of example_df3) (columns example_df3))
         (columns example_df3) = [- (1/3), 1/3, - (2/3)]"
    by (simp add: signed_sum_def series_of_def columns_def example_df3_def tau_of_def
        pc_property_def taus)
  ultimately show ?thesis
    using example3_selected by simp
qed

text \<open>
  Claim C8, on the code. On the tie example Kendall's tau is 2/3 between columns 0 and
  1, -1 between columns 0 and 2, and -2/3 between columns 1 and 2. The sums of the
  absolute values are 5/3, 4/3 and 5/3: columns 0 and 2 tie for the maximum, and the
  column with the lowest index is column 0. The code, which compares the absolute values
  of the signed sums (1/3, 0 and 5/3, up to rounding), selects column 2.
\<close>

theorem tie_of_abs_sums_goes_to_later_column:
  "selectSpanningTree pc_property (built_tree example_tie_df :: unit Ctree)
     = Inr [(LInt 2, LInt 0, - 1), (LInt 2, LInt 1, - (2 / 3))]
   \<and> map (abs_sum pc_property (series_of example_tie_df) (columns example_tie_df))
         (columns example_tie_df) = [5/3, 4/3, 5/3]"
proof -
  have "selectSpanningTree pc_property (built_tree example_tie_df :: unit Ctree)
     = Inr [(LInt 2, LInt 0, - 1), (LInt 2, LInt 1, - (2 / 3))]"
    by (simp add: selectSpanningTree_def built_tree_def getattr_def columns_def
        example_tie_df_def node_data_def unpack_attr_def pc_property_def np_argmax_def
        series_of_def taus is_not_def is_object_def float_eval)
  moreover have "map (abs_sum pc_property (series_of example_tie_df) (columns example_tie_df))
         (columns example_tie_df) = [5/3, 4/3, 5/3]"
    by (simp add: abs_sum_def series_of_def columns_def example_tie_df_def tau_of_def
        pc_property_def taus)
  ultimately show ?thesis by simp
qed

section \<open>Edges\<close>

text \<open>
  Without a structure from the user, with \<^verbatim>\<open>empKTau\<close> the pair line 188 unpacks and with
  labels that are distinct and yielded as the same objects every time, the edges
  \<^verbatim>\<open>setEdges\<close> adds to a newly built tree are the pairs of one root, a column of the data,
  with every other column, in column order: a star of one edge less than there are
  columns.
\<close>

lemma setEdges_loop_star:
  assumes "r \<in> set (columns df)"
  shows "set cs \<subseteq> set (columns df) \<Longrightarrow> distinct cs \<Longrightarrow> r \<notin> set cs
    \<Longrightarrow> insert r (set cs) \<subseteq> fst ` set (node g)
    \<Longrightarrow> \<forall>e \<in> set (edge g). fst (fst e) = r \<and> snd (fst e) \<notin> set cs \<and> snd (fst e) \<noteq> r
    \<Longrightarrow> setEdges_loop mkpc df (map (\<lambda>c. (r, c, w c)) cs) g =
        Inr (g\<lparr>edge := edge g @ map (\<lambda>c. ((r, c),
               \<lparr>weight = w c, pc = mkpc (series_of df r) (series_of df c),
                pc_model = None, h_dist = None\<rparr>)) cs\<rparr>)"
proof (induction cs arbitrary: g)
  case Nil
  then show ?case by simp
next
  case (Cons c cs)
  let ?d = "\<lparr>weight = w c, pc = mkpc (series_of df r) (series_of df c),
             pc_model = None, h_dist = None\<rparr>"
  let ?g = "g\<lparr>edge := edge g @ [((r, c), ?d)]\<rparr>"
  have no_edge: "\<not> (\<exists>e \<in> set (edge g). same_edge (fst e) (r, c))"
  proof
    assume "\<exists>e \<in> set (edge g). same_edge (fst e) (r, c)"
    then obtain e where e: "e \<in> set (edge g)" "same_edge (fst e) (r, c)" by blast
    obtain a b where ab: "fst e = (a, b)" by (cases "fst e")
    from Cons.prems(5) e(1) have "fst (fst e) = r \<and> snd (fst e) \<notin> set (c # cs) \<and> snd (fst e) \<noteq> r"
      by blast
    with ab have "a = r" "b \<noteq> c" "b \<noteq> r" by simp_all
    with e(2) ab show False by simp
  qed
  have nodes: "r \<in> fst ` set (node g)" "c \<in> fst ` set (node g)"
    using Cons.prems(4) by auto
  have add: "add_edge g r c (w c) (mkpc (series_of df r) (series_of df c)) = ?g"
    using nodes no_edge by (simp add: add_edge_def)
  have gr: "getitem df r = Inr (series_of df r)"
    using assms by (rule getitem_column)
  have gc: "getitem df c = Inr (series_of df c)"
    using Cons.prems(1) by (intro getitem_column) simp
  have "setEdges_loop mkpc df (map (\<lambda>c. (r, c, w c)) cs) ?g =
        Inr (?g\<lparr>edge := edge ?g @ map (\<lambda>c. ((r, c),
               \<lparr>weight = w c, pc = mkpc (series_of df r) (series_of df c),
                pc_model = None, h_dist = None\<rparr>)) cs\<rparr>)"
  proof (rule Cons.IH)
    show "set cs \<subseteq> set (columns df)" using Cons.prems(1) by simp
    show "distinct cs" using Cons.prems(2) by simp
    show "r \<notin> set cs" using Cons.prems(3) by simp
    show "insert r (set cs) \<subseteq> fst ` set (node ?g)" using Cons.prems(4) by auto
    show "\<forall>e \<in> set (edge ?g). fst (fst e) = r \<and> snd (fst e) \<notin> set cs \<and> snd (fst e) \<noteq> r"
      using Cons.prems(2) Cons.prems(3) Cons.prems(5) by auto
  qed
  then show ?case
    using gr gc add by simp
qed

lemma automatic_selection_is_star:
  assumes "\<forall>x y. \<exists>r. empKTau (mkpc x y) = Property r"
    and "distinct (columns df)" and "identity_comparable (columns df)"
    and "columns df \<noteq> []"
  shows "\<exists>r \<in> set (columns df).
           edge_weights (setEdges mkpc (built_tree df) None) =
             Inr (map (\<lambda>c. (r, c, tau_of mkpc (series_of df r) (series_of df c)))
                    (filter (\<lambda>c. c \<noteq> r) (columns df)))"
proof -
  let ?ids = "columns df"
  let ?f = "series_of df"
  let ?g = "\<lparr>node = map (\<lambda>c. (c, [(''data'', ?f c)])) ?ids, edge = []\<rparr> :: 'a Graph"
  have "\<exists>r \<in> set ?ids. selectSpanningTree mkpc (built_tree df :: 'a Ctree)
          = Inr (pairings_of mkpc ?f ?ids r)"
  proof (rule selectSpanningTree_selects_a_column [OF assms(1)])
    show "data (built_tree df :: 'a Ctree) = Some df" by (simp add: built_tree_def)
    show "tree (built_tree df :: 'a Ctree) = Some ?g" by (simp add: built_tree_def)
    show "\<forall>c \<in> set ?ids. node_data ?g c = Inr (?f c)"
      by (simp add: built_tree_node_data)
    show "identity_comparable ?ids" by (rule assms(3))
    show "?ids \<noteq> []" by (rule assms(4))
  qed
  then obtain r where r: "r \<in> set ?ids"
    and sel: "selectSpanningTree mkpc (built_tree df :: 'a Ctree) = Inr (pairings_of mkpc ?f ?ids r)"
    by blast
  let ?cs = "filter (\<lambda>c. c \<noteq> r) ?ids"
  have loop: "setEdges_loop mkpc df (map (\<lambda>c. (r, c, tau_of mkpc (?f r) (?f c))) ?cs) ?g =
        Inr (?g\<lparr>edge := edge ?g @ map (\<lambda>c. ((r, c),
               \<lparr>weight = tau_of mkpc (?f r) (?f c), pc = mkpc (?f r) (?f c),
                pc_model = None, h_dist = None\<rparr>)) ?cs\<rparr>)"
  proof (rule setEdges_loop_star [OF r])
    show "set ?cs \<subseteq> set ?ids" by auto
    show "distinct ?cs" using assms(2) by simp
    show "r \<notin> set ?cs" by simp
    show "insert r (set ?cs) \<subseteq> fst ` set (node ?g)" using r by (auto simp: image_iff)
    show "\<forall>e \<in> set (edge ?g). fst (fst e) = r \<and> snd (fst e) \<notin> set ?cs \<and> snd (fst e) \<noteq> r"
      by simp
  qed
  have "edge_weights (setEdges mkpc (built_tree df) None) =
          Inr (map (\<lambda>c. (r, c, tau_of mkpc (?f r) (?f c))) ?cs)"
    unfolding setEdges_def
    apply (simp add: sel)
    apply (simp add: pairings_of_def built_tree_def getattr_def loop edge_weights_def
        and_then_def comp_def)
    done
  with r show ?thesis by blast
qed

lemma star_edge_count:
  "distinct cs \<Longrightarrow> r \<in> set cs \<Longrightarrow> length (filter (\<lambda>c. c \<noteq> r) cs) = length cs - 1"
proof (induction cs)
  case Nil
  then show ?case by simp
next
  case (Cons c cs)
  show ?case
  proof (cases "c = r")
    case True
    then have "r \<notin> set cs" using Cons.prems(1) by simp
    then have "filter (\<lambda>c. c \<noteq> r) cs = cs" by (induction cs) auto
    with True show ?thesis by simp
  next
    case False
    then have "r \<in> set cs" using Cons.prems(2) by simp
    then have "0 < length cs" by (cases cs) auto
    with False Cons show ?thesis by simp
  qed
qed

text \<open>
  Claim C4, on the code. On the four-column example a user-supplied structure that is a
  path, 0 - 1 - 2 - 3, is stored as it is given: the tree has the three edges of the path,
  no node lies on all of them, and the nodes 1 and 2 both have degree 2.
\<close>

theorem user_structure_stored_unchecked:
  "edge_weights (setEdges pc_method (built_tree example_df4)
        (Some [(LInt 0, LInt 1), (LInt 1, LInt 2), (LInt 2, LInt 3)]))
     = Inr [(LInt 0, LInt 1, 1/3), (LInt 1, LInt 2, 0), (LInt 2, LInt 3, 0)]
   \<and> node_degrees (setEdges pc_method (built_tree example_df4)
        (Some [(LInt 0, LInt 1), (LInt 1, LInt 2), (LInt 2, LInt 3)]))
     = Inr [(LInt 0, 1), (LInt 1, 2), (LInt 2, 2), (LInt 3, 1)]"
  by (simp add: edge_weights_def node_degrees_def and_then_def setEdges_def
      setTreeStructure_def built_tree_def getattr_def columns_def example_df4_def
      node_data_def call_attr_def pc_method_def series_of_def getitem_def add_edge_def
      degree_def taus)

text \<open>The edges of the three-column example after automatic selection.\<close>

lemma example3_setEdges: "setEdges pc_property (built_tree example_df3) None =
    Inr ((built_tree example_df3)\<lparr>tree := Some
       \<lparr>node = [(LInt 0, [(''data'', obs_a)]), (LInt 1, [(''data'', obs_b)]),
                (LInt 2, [(''data'', obs_c)])],
        edge = [((LInt 2, LInt 0), \<lparr>weight = - (2 / 3), pc = pc_property obs_c obs_a,
                                     pc_model = None, h_dist = None\<rparr>),
                ((LInt 2, LInt 1), \<lparr>weight = 0, pc = pc_property obs_c obs_b,
                                     pc_model = None, h_dist = None\<rparr>)]\<rparr>\<rparr>)"
proof -
  have "setEdges pc_property (built_tree example_df3) None =
      (case getattr (data (built_tree example_df3 :: unit Ctree)) of
         Inl e \<Rightarrow> Inl e
       | Inr df \<Rightarrow>
           (case getattr (tree (built_tree example_df3 :: unit Ctree)) of
              Inl e \<Rightarrow> Inl e
            | Inr g \<Rightarrow>
                (case setEdges_loop pc_property df
                        [(LInt 2, LInt 0, - (2 / 3)), (LInt 2, LInt 1, 0)] g of
                   Inl e \<Rightarrow> Inl e
                 | Inr g' \<Rightarrow> Inr ((built_tree example_df3)\<lparr>tree := Some g'\<rparr>))))"
    by (simp add: setEdges_def example3_selected)
  also have "\<dots> = Inr ((built_tree example_df3)\<lparr>tree := Some
       \<lparr>node = [(LInt 0, [(''data'', obs_a)]), (LInt 1, [(''data'', obs_b)]),
                (LInt 2, [(''data'', obs_c)])],
        edge = [((LInt 2, LInt 0), \<lparr>weight = - (2 / 3), pc = pc_property obs_c obs_a,
                                     pc_model = None, h_dist = None\<rparr>),
                ((LInt 2, LInt 1), \<lparr>weight = 0, pc = pc_property obs_c obs_b,
                                     pc_model = None, h_dist = None\<rparr>)]\<rparr>\<rparr>)"
    by (simp add: built_tree_def getattr_def columns_def example_df3_def series_of_def
        getitem_def add_edge_def)
  finally show ?thesis .
qed

section \<open>Evaluating the conditional transform on the edges\<close>

text \<open>
  Claim C5, on the code. On the three-column example, after automatic selection (root:
  column 2) and fitting, \<^verbatim>\<open>evalH\<close> calls \<^verbatim>\<open>h\<close> on the attribute dictionaries of the two
  end nodes, not on their series, and with rotation 0. The graph reports each edge from
  its non-root end, so the second argument is the root's dictionary, and with the
  independence family, whose transform returns its second argument, what is stored on
  both edges is the dictionary of the root, holding the root's own series.
\<close>

theorem evalH_passes_node_dictionaries:
  "edge_h_dists (and_then (and_then (setEdges pc_property (built_tree example_df3) None)
       fitCopula) evalH)
     = Inr [(LInt 2, LInt 0, Some (Dict [(''data'', obs_c)])),
            (LInt 2, LInt 1, Some (Dict [(''data'', obs_c)]))]"
  unfolding example3_setEdges
  by (simp add: edge_h_dists_def and_then_def built_tree_def getattr_def fitCopula_def
      edges_def nbrs_def pc_property_def set_pc_model_def evalH_def node_dict_def
      IndepCopula_model_def IndepCopula_h_def set_h_dist_def)

section \<open>The vine\<close>

text \<open>
  Claim C6, on the code. For the three-column example \<^verbatim>\<open>__init__\<close> records two levels,
  and \<^verbatim>\<open>constructVine\<close> returns \<^verbatim>\<open>None\<close> and leaves the vine as the constructor made it:
  an empty graph. No level is built.
\<close>

theorem constructVine_builds_no_level:
  "constructVine (Cvine_init example_df3 :: unit Cvine) = (Cvine_init example_df3, None)
   \<and> nLevels (Cvine_init example_df3 :: unit Cvine) = 2
   \<and> node (vine (fst (constructVine (Cvine_init example_df3 :: unit Cvine)))) = []
   \<and> edge (vine (fst (constructVine (Cvine_init example_df3 :: unit Cvine)))) = []"
  by (simp add: constructVine_def Cvine_init_def nx_Graph_def example_df3_def)

text \<open>
  Claim C7, on the code. For every vine and parameter list \<^verbatim>\<open>vineLLH\<close> returns \<^verbatim>\<open>None\<close>
  and changes nothing, and for every tree \<^verbatim>\<open>treeLLH\<close> returns \<^verbatim>\<open>None\<close>: neither computes
  a sum of log-likelihoods.
\<close>

theorem vineLLH_and_treeLLH_return_None:
  "vineLLH self plist = (self, None) \<and> treeLLH t = None"
  by (simp add: vineLLH_def treeLLH_def)

end
